theory Spec2Isabelle
  imports Main "HOL-Library.Word"
begin

unbundle bit_operations_syntax

section \<open>Primitive types\<close>

text \<open>
  The scalar types of \<^verbatim>\<open>nil/internal/types/transaction.go\<close>. \<^verbatim>\<open>TransactionKind\<close> is a
  \<^verbatim>\<open>uint8\<close> with four named values; a value outside them can be stored in the field,
  so the kind is a byte here and the named values are constants.
\<close>

type_synonym TransactionKind = "8 word"

definition ExecutionTransactionKind :: TransactionKind where
  "ExecutionTransactionKind = 0"

definition DeployTransactionKind :: TransactionKind where
  "DeployTransactionKind = 1"

definition RefundTransactionKind :: TransactionKind where
  "RefundTransactionKind = 2"

definition ResponseTransactionKind :: TransactionKind where
  "ResponseTransactionKind = 3"

type_synonym Seqno = "64 word"
type_synonym TransactionIndex = "64 word"
type_synonym ChainId = "64 word"
type_synonym ForwardKind = "64 word"
type_synonym bytes = "8 word list"
type_synonym Code = bytes
type_synonym Hash = "256 word"

text \<open>
  Modelled from the spec: the types \<^verbatim>\<open>Address\<close>, \<^verbatim>\<open>Value\<close> and \<^verbatim>\<open>TokenBalance\<close> are
  declared in files that are not part of the sources. The spec gives \<^verbatim>\<open>Address\<close> as an
  opaque 20-byte identity, \<^verbatim>\<open>Value\<close> as an arbitrary-precision non-negative integer
  with \<^verbatim>\<open>Add\<close>, \<^verbatim>\<open>Cmp\<close>, \<^verbatim>\<open>IsZero\<close> and a zero constructor, and \<^verbatim>\<open>TokenBalance\<close> as a
  pair of a token id and an amount.
\<close>

type_synonym Address = "160 word"
type_synonym Value = nat
type_synonym TokenBalance = "Address \<times> Value"

definition NewZeroValue :: Value where
  "NewZeroValue = 0"

definition Value0 :: Value where
  "Value0 = 0"

definition Value_Add :: "Value \<Rightarrow> Value \<Rightarrow> Value" where
  "Value_Add v other = v + other"

definition Value_Cmp :: "Value \<Rightarrow> Value \<Rightarrow> int" where
  "Value_Cmp v other = (if v < other then - 1 else if v = other then 0 else 1)"

definition Value_IsZero :: "Value \<Rightarrow> bool" where
  "Value_IsZero v = (v = 0)"

section \<open>Errors\<close>

text \<open>
  Every error value and every panic of the file is a constructor. The first four are the
  errors the file builds itself; \<open>ErrMarshal\<close>, \<open>ErrSign\<close> and \<open>ErrJSON\<close> stand for
  the errors handed back by the RLP encoder, by \<^verbatim>\<open>crypto.Sign\<close> and by
  \<^verbatim>\<open>json.Unmarshal\<close>; the two panics are the one of \<^verbatim>\<open>toExternal\<close> and the one of
  \<^verbatim>\<open>common.MustKeccak\<close>.
\<close>

datatype error =
    ErrInternalRoles
  | ErrExternalRoles
  | ErrToMainShard
  | ErrMaxFeeBelowBase
  | ErrMarshal
  | ErrSign
  | ErrJSON
  | PanicInternalToExternal
  | PanicMarshal

definition is_panic :: "error \<Rightarrow> bool" where
  "is_panic e = (e = PanicInternalToExternal \<or> e = PanicMarshal)"

section \<open>Bit flags\<close>

text \<open>
  \<^verbatim>\<open>TransactionFlags\<close> wraps \<^verbatim>\<open>BitFlags[uint8]\<close>, whose only field is \<^verbatim>\<open>Bits\<close>.

  Modelled from the spec: the generic \<^verbatim>\<open>BitFlags\<close> type is declared outside the sources;
  the spec describes it as a bitset over a small unsigned integer with bit get, set and
  clear, and \<^verbatim>\<open>Clear()\<close> resetting the whole set.
\<close>

record TransactionFlags =
  Bits :: "8 word"

definition GetBit :: "TransactionFlags \<Rightarrow> nat \<Rightarrow> bool" where
  "GetBit m i = bit (Bits m) i"

definition SetBit :: "nat \<Rightarrow> TransactionFlags \<Rightarrow> TransactionFlags" where
  "SetBit i m = m\<lparr>Bits := set_bit i (Bits m)\<rparr>"

definition Clear :: "TransactionFlags \<Rightarrow> TransactionFlags" where
  "Clear m = m\<lparr>Bits := 0\<rparr>"

definition NewBitFlags :: "nat list \<Rightarrow> TransactionFlags" where
  "NewBitFlags flags = fold SetBit flags \<lparr>Bits = 0\<rparr>"

definition NewTransactionFlagsFromBits :: "8 word \<Rightarrow> TransactionFlags" where
  "NewTransactionFlagsFromBits bits = \<lparr>Bits = bits\<rparr>"

definition TransactionFlagInternal :: nat where
  "TransactionFlagInternal = 0"

definition TransactionFlagDeploy :: nat where
  "TransactionFlagDeploy = 1"

definition TransactionFlagRefund :: nat where
  "TransactionFlagRefund = 2"

definition TransactionFlagBounce :: nat where
  "TransactionFlagBounce = 3"

definition TransactionFlagResponse :: nat where
  "TransactionFlagResponse = 4"

definition NewTransactionFlags :: "nat list \<Rightarrow> TransactionFlags" where
  "NewTransactionFlags flags = NewBitFlags flags"

definition TransactionFlagsFromKind :: "bool \<Rightarrow> TransactionKind \<Rightarrow> TransactionFlags" where
  "TransactionFlagsFromKind internal kind =
     (let flags0 = [];
          flags1 = (if internal then flags0 @ [TransactionFlagInternal] else flags0);
          flags2 =
            (if kind = DeployTransactionKind then flags1 @ [TransactionFlagDeploy]
             else if kind = RefundTransactionKind then flags1 @ [TransactionFlagRefund]
             else if kind = ResponseTransactionKind then flags1 @ [TransactionFlagResponse]
             else flags1)
      in NewTransactionFlags flags2)"

definition Flags_IsInternal :: "TransactionFlags \<Rightarrow> bool" where
  "Flags_IsInternal m = GetBit m TransactionFlagInternal"

definition Flags_IsDeploy :: "TransactionFlags \<Rightarrow> bool" where
  "Flags_IsDeploy m = GetBit m TransactionFlagDeploy"

definition Flags_IsRefund :: "TransactionFlags \<Rightarrow> bool" where
  "Flags_IsRefund m = GetBit m TransactionFlagRefund"

definition Flags_IsBounce :: "TransactionFlags \<Rightarrow> bool" where
  "Flags_IsBounce m = GetBit m TransactionFlagBounce"

definition Flags_IsResponse :: "TransactionFlags \<Rightarrow> bool" where
  "Flags_IsResponse m = GetBit m TransactionFlagResponse"

section \<open>The three transaction shapes\<close>

text \<open>
  Go embeds \<^verbatim>\<open>FeePack\<close> in \<^verbatim>\<open>TransactionDigest\<close> and in \<^verbatim>\<open>ExternalTransaction\<close>, and
  \<^verbatim>\<open>TransactionDigest\<close> in \<^verbatim>\<open>Transaction\<close>; record extension gives the same promoted
  fields. The fields of \<^verbatim>\<open>InternalTransactionPayload\<close> and \<^verbatim>\<open>ExternalTransaction\<close> are
  written with their record's name (\<open>ExternalTransaction.To\<close>); the plain names are
  those of \<^verbatim>\<open>TransactionDigest\<close> and \<^verbatim>\<open>Transaction\<close>.
\<close>

record AsyncRequestInfo =
  Id :: "64 word"
  Caller :: Address

record FeePack =
  FeeCredit :: Value
  MaxPriorityFeePerGas :: Value
  MaxFeePerGas :: Value

record InternalTransactionPayload =
  Kind :: TransactionKind
  Bounce :: bool
  FeeCredit :: Value
  ForwardKind :: ForwardKind
  To :: Address
  RefundTo :: Address
  BounceTo :: Address
  Value :: Value
  Data :: Code
  RequestId :: "64 word"
  Token :: "TokenBalance list"

record ExternalTransaction = FeePack +
  Kind :: TransactionKind
  To :: Address
  ChainId :: ChainId
  Seqno :: Seqno
  Data :: Code
  AuthData :: bytes

record TransactionDigest = FeePack +
  Flags :: TransactionFlags
  To :: Address
  ChainId :: ChainId
  Seqno :: Seqno
  Data :: Code

record Transaction = TransactionDigest +
  From :: Address
  TxId :: TransactionIndex
  RefundTo :: Address
  BounceTo :: Address
  Value :: Value
  RequestId :: "64 word"
  Token :: "TokenBalance list"
  RequestChain :: "AsyncRequestInfo list"
  Signature :: bytes

definition NewFeePack :: FeePack where
  "NewFeePack =
     \<lparr>FeePack.FeeCredit = NewZeroValue, MaxPriorityFeePerGas = NewZeroValue,
      MaxFeePerGas = NewZeroValue\<rparr>"

section \<open>Collaborators outside the file\<close>

text \<open>
  The functions the file calls in other packages are parameters: the shard projection of
  an address and the main-shard test, \<^verbatim>\<open>ToShardedHash\<close>, Keccak-256 on bytes, the RLP
  encoder at the three struct types it is used on, and the ECDSA signing primitive.
  \<open>'sh\<close> is the type of shard ids and \<open>'k\<close> the type of private keys.
\<close>

record ('sh, 'k) Lib =
  ShardId :: "Address \<Rightarrow> 'sh"
  IsMainShard :: "'sh \<Rightarrow> bool"
  ToShardedHash :: "Hash \<Rightarrow> 'sh \<Rightarrow> Hash"
  KeccakHash :: "bytes \<Rightarrow> Hash"
  rlp_TransactionDigest :: "TransactionDigest \<Rightarrow> error + bytes"
  rlp_Transaction :: "Transaction \<Rightarrow> error + bytes"
  rlp_ExternalTransaction :: "ExternalTransaction \<Rightarrow> error + bytes"
  crypto_Sign :: "Hash \<Rightarrow> 'k \<Rightarrow> error + bytes"

text \<open>
  One instance of the collaborators, on which the model is evaluated: the shard of an
  address is its two leading bytes, the main shard is shard 0, and the encoders and the
  hash are small total functions.
\<close>

definition sampleLib :: "(16 word, nat) Lib" where
  "sampleLib =
     \<lparr>ShardId = (\<lambda>a. ucast (drop_bit 144 a)),
      IsMainShard = (\<lambda>s. s = 0),
      ToShardedHash = (\<lambda>h s. h),
      KeccakHash = (\<lambda>bs. of_nat (length bs)),
      rlp_TransactionDigest = (\<lambda>d. Inr (TransactionDigest.Data d)),
      rlp_Transaction = (\<lambda>t. Inr (TransactionDigest.Data t)),
      rlp_ExternalTransaction = (\<lambda>x. Inr (ExternalTransaction.Data x)),
      crypto_Sign = (\<lambda>h k. Inr [])\<rparr>"

section \<open>Predicates of a transaction\<close>

definition IsInternal :: "Transaction \<Rightarrow> bool" where
  "IsInternal m = GetBit (Flags m) TransactionFlagInternal"

definition IsExternal :: "Transaction \<Rightarrow> bool" where
  "IsExternal m = (\<not> IsInternal m)"

definition IsExecution :: "Transaction \<Rightarrow> bool" where
  "IsExecution m = (\<not> Flags_IsDeploy (Flags m) \<and> \<not> Flags_IsRefund (Flags m))"

definition IsBounce :: "Transaction \<Rightarrow> bool" where
  "IsBounce m = Flags_IsBounce (Flags m)"

definition IsDeploy :: "Transaction \<Rightarrow> bool" where
  "IsDeploy m = Flags_IsDeploy (Flags m)"

definition IsRefund :: "Transaction \<Rightarrow> bool" where
  "IsRefund m = Flags_IsRefund (Flags m)"

definition IsResponse :: "Transaction \<Rightarrow> bool" where
  "IsResponse m = Flags_IsResponse (Flags m)"

definition IsRequestOrResponse :: "Transaction \<Rightarrow> bool" where
  "IsRequestOrResponse m = (Transaction.RequestId m \<noteq> 0)"

definition IsRequest :: "Transaction \<Rightarrow> bool" where
  "IsRequest m = (IsRequestOrResponse m \<and> \<not> IsResponse m)"

definition IsSystem :: "('sh, 'k) Lib \<Rightarrow> Transaction \<Rightarrow> bool" where
  "IsSystem lib m = IsMainShard lib (ShardId lib (To m))"

section \<open>VerifyFlags\<close>

text \<open>
  The counter \<^verbatim>\<open>num\<close> of the internal branch is threaded through the four tests in the
  order of the source; the main-shard test is reached only when the role test passed.
\<close>

definition VerifyFlags :: "('sh, 'k) Lib \<Rightarrow> Transaction \<Rightarrow> error + unit" where
  "VerifyFlags lib m =
     (let roles =
        (if IsInternal m then
           (let num0 = (0 :: int);
                num1 = (if IsDeploy m then num0 + 1 else num0);
                num2 = (if IsRefund m then num1 + 1 else num1);
                num3 = (if IsBounce m then num2 + 1 else num2);
                num4 = (if IsRequestOrResponse m then num3 + 1 else num3)
            in if num4 > 1 then Inl ErrInternalRoles else Inr ())
         else if IsRefund m \<or> IsBounce m \<or> IsRequestOrResponse m then Inl ErrExternalRoles
         else Inr ())
      in case roles of
           Inl e \<Rightarrow> Inl e
         | Inr _ \<Rightarrow>
             if IsMainShard lib (ShardId lib (To m)) \<and> \<not> IsMainShard lib (ShardId lib (From m))
             then Inl ErrToMainShard
             else Inr ())"

section \<open>TransactionGasPrice\<close>

definition TransactionGasPrice :: "Transaction \<Rightarrow> Value \<Rightarrow> error + Value" where
  "TransactionGasPrice m baseFeePerGas =
     (let gasPrice = Value_Add baseFeePerGas (MaxPriorityFeePerGas m)
      in if \<not> Value_IsZero (MaxFeePerGas m) \<and> Value_Cmp gasPrice (MaxFeePerGas m) > 0 then
           if Value_Cmp baseFeePerGas (MaxFeePerGas m) > 0 then Inl ErrMaxFeeBelowBase
           else Inr (MaxFeePerGas m)
         else Inr gasPrice)"

section \<open>Conversions between the shapes\<close>

text \<open>
  \<^verbatim>\<open>toExternal\<close> panics on an internal transaction; the panic is the \<open>Inl\<close> result.
  The kind is chosen by the \<^verbatim>\<open>switch\<close> in the order of its cases.
\<close>

definition toExternal :: "Transaction \<Rightarrow> error + ExternalTransaction" where
  "toExternal m =
     (if IsInternal m then Inl PanicInternalToExternal
      else
        (let kind =
           (if IsDeploy m then DeployTransactionKind
            else if IsRefund m then RefundTransactionKind
            else ExecutionTransactionKind)
         in Inr \<lparr>FeePack.FeeCredit = FeePack.FeeCredit m,
                 MaxPriorityFeePerGas = MaxPriorityFeePerGas m,
                 MaxFeePerGas = MaxFeePerGas m,
                 ExternalTransaction.Kind = kind,
                 ExternalTransaction.To = To m,
                 ExternalTransaction.ChainId = ChainId m,
                 ExternalTransaction.Seqno = Seqno m,
                 ExternalTransaction.Data = Data m,
                 AuthData = Signature m\<rparr>))"

text \<open>
  The fields a composite literal of the source leaves out hold Go's zero value: 0 for the
  integers, the addresses and the values, the empty list for slices.
\<close>

definition InternalTransactionPayload_ToTransaction ::
    "InternalTransactionPayload \<Rightarrow> Address \<Rightarrow> Seqno \<Rightarrow> Transaction" where
  "InternalTransactionPayload_ToTransaction m from seqno =
     (let txn =
        \<lparr>FeePack.FeeCredit = InternalTransactionPayload.FeeCredit m,
         MaxPriorityFeePerGas = NewZeroValue,
         MaxFeePerGas = NewZeroValue,
         Flags = TransactionFlagsFromKind True (InternalTransactionPayload.Kind m),
         To = InternalTransactionPayload.To m,
         ChainId = 0,
         Seqno = seqno,
         Data = InternalTransactionPayload.Data m,
         From = from,
         TxId = 0,
         RefundTo = InternalTransactionPayload.RefundTo m,
         BounceTo = InternalTransactionPayload.BounceTo m,
         Value = InternalTransactionPayload.Value m,
         RequestId = InternalTransactionPayload.RequestId m,
         Token = InternalTransactionPayload.Token m,
         RequestChain = [],
         Signature = []\<rparr>
      in if Bounce m then txn\<lparr>Flags := SetBit TransactionFlagBounce (Flags txn)\<rparr> else txn)"

definition ExternalTransaction_ToTransaction :: "ExternalTransaction \<Rightarrow> Transaction" where
  "ExternalTransaction_ToTransaction m =
     \<lparr>FeePack.FeeCredit = FeePack.FeeCredit m,
      MaxPriorityFeePerGas = MaxPriorityFeePerGas m,
      MaxFeePerGas = MaxFeePerGas m,
      Flags = TransactionFlagsFromKind False (ExternalTransaction.Kind m),
      To = ExternalTransaction.To m,
      ChainId = ExternalTransaction.ChainId m,
      Seqno = ExternalTransaction.Seqno m,
      Data = ExternalTransaction.Data m,
      From = ExternalTransaction.To m,
      TxId = 0,
      RefundTo = 0,
      BounceTo = 0,
      Value = 0,
      RequestId = 0,
      Token = [],
      RequestChain = [],
      Signature = AuthData m\<rparr>"

section \<open>Hashing and signing\<close>

text \<open>
  Each \<^verbatim>\<open>MarshalNil\<close> is \<^verbatim>\<open>rlp.EncodeToBytes\<close> on the receiver.

  Modelled from the spec: \<^verbatim>\<open>common.Keccak\<close> and \<^verbatim>\<open>common.MustKeccak\<close> are declared
  outside the sources. The spec gives both hashes as Keccak-256 of the canonical bytes of
  the argument; by their signatures in the calls of this file, \<^verbatim>\<open>Keccak\<close> returns the
  encoder's error beside the hash and \<^verbatim>\<open>MustKeccak\<close> returns a hash only, so that an
  encoding error there can only be a panic.
\<close>

definition TransactionDigest_MarshalNil ::
    "('sh, 'k) Lib \<Rightarrow> TransactionDigest \<Rightarrow> error + bytes" where
  "TransactionDigest_MarshalNil lib d = rlp_TransactionDigest lib d"

definition Transaction_MarshalNil :: "('sh, 'k) Lib \<Rightarrow> Transaction \<Rightarrow> error + bytes" where
  "Transaction_MarshalNil lib t = rlp_Transaction lib t"

definition ExternalTransaction_MarshalNil ::
    "('sh, 'k) Lib \<Rightarrow> ExternalTransaction \<Rightarrow> error + bytes" where
  "ExternalTransaction_MarshalNil lib tx = rlp_ExternalTransaction lib tx"

definition Keccak :: "('sh, 'k) Lib \<Rightarrow> error + bytes \<Rightarrow> error + Hash" where
  "Keccak lib marshalled =
     (case marshalled of Inl e \<Rightarrow> Inl e | Inr buf \<Rightarrow> Inr (KeccakHash lib buf))"

definition MustKeccak :: "('sh, 'k) Lib \<Rightarrow> error + bytes \<Rightarrow> error + Hash" where
  "MustKeccak lib marshalled =
     (case Keccak lib marshalled of Inl e \<Rightarrow> Inl PanicMarshal | Inr h \<Rightarrow> Inr h)"

definition ExternalTransaction_Hash ::
    "('sh, 'k) Lib \<Rightarrow> ExternalTransaction \<Rightarrow> error + Hash" where
  "ExternalTransaction_Hash lib m =
     (case MustKeccak lib (ExternalTransaction_MarshalNil lib m) of
        Inl e \<Rightarrow> Inl e
      | Inr h \<Rightarrow> Inr (ToShardedHash lib h (ShardId lib (ExternalTransaction.To m))))"

definition Transaction_Hash :: "('sh, 'k) Lib \<Rightarrow> Transaction \<Rightarrow> error + Hash" where
  "Transaction_Hash lib m =
     (if IsExternal m then
        (case toExternal m of
           Inl e \<Rightarrow> Inl e
         | Inr ext \<Rightarrow> ExternalTransaction_Hash lib ext)
      else
        (case MustKeccak lib (Transaction_MarshalNil lib m) of
           Inl e \<Rightarrow> Inl e
         | Inr h \<Rightarrow> Inr (ToShardedHash lib h (ShardId lib (To m)))))"

definition ExternalTransaction_SigningHash ::
    "('sh, 'k) Lib \<Rightarrow> ExternalTransaction \<Rightarrow> error + Hash" where
  "ExternalTransaction_SigningHash lib m =
     (let transactionDigest =
        \<lparr>FeePack.FeeCredit = FeePack.FeeCredit m,
         MaxPriorityFeePerGas = MaxPriorityFeePerGas m,
         MaxFeePerGas = MaxFeePerGas m,
         Flags = TransactionFlagsFromKind False (ExternalTransaction.Kind m),
         To = ExternalTransaction.To m,
         ChainId = ExternalTransaction.ChainId m,
         Seqno = ExternalTransaction.Seqno m,
         Data = ExternalTransaction.Data m\<rparr>
      in Keccak lib (TransactionDigest_MarshalNil lib transactionDigest))"

definition Transaction_SigningHash :: "('sh, 'k) Lib \<Rightarrow> Transaction \<Rightarrow> error + Hash" where
  "Transaction_SigningHash lib m =
     Keccak lib (TransactionDigest_MarshalNil lib (TransactionDigest.truncate m))"

definition ExternalTransaction_Sign ::
    "('sh, 'k) Lib \<Rightarrow> ExternalTransaction \<Rightarrow> 'k \<Rightarrow> error + ExternalTransaction" where
  "ExternalTransaction_Sign lib m key =
     (case ExternalTransaction_SigningHash lib m of
        Inl e \<Rightarrow> Inl e
      | Inr hash \<Rightarrow>
          (case crypto_Sign lib hash key of
             Inl e \<Rightarrow> Inl e
           | Inr sig \<Rightarrow> Inr (m\<lparr>AuthData := sig\<rparr>)))"

definition Transaction_Sign ::
    "('sh, 'k) Lib \<Rightarrow> Transaction \<Rightarrow> 'k \<Rightarrow> error + Transaction" where
  "Transaction_Sign lib m key =
     (case toExternal m of
        Inl e \<Rightarrow> Inl e
      | Inr ext \<Rightarrow>
          (case ExternalTransaction_Sign lib ext key of
             Inl e \<Rightarrow> Inl e
           | Inr ext' \<Rightarrow> Inr (m\<lparr>Signature := AuthData ext'\<rparr>)))"

section \<open>The JSON form of the flags\<close>

text \<open>
  \<^verbatim>\<open>MarshalJSON\<close> never returns an error, so its result is the byte string alone;
  \<open>quoted s\<close> is \<open>s\<close> between two double quotes, the way the source writes its
  literals. \<^verbatim>\<open>UnmarshalJSON\<close> has a pointer receiver: the model returns the receiver after
  the call beside the error. \<^verbatim>\<open>json.Unmarshal\<close> into a \<^verbatim>\<open>[]string\<close> is the parameter
  \<open>json_Unmarshal\<close>; \<open>setToken\<close> is the body of the \<^verbatim>\<open>switch\<close> on one token.
\<close>

definition quoted :: "string \<Rightarrow> string" where
  "quoted s = [CHR 0x22] @ s @ [CHR 0x22]"

definition MarshalJSON :: "TransactionFlags \<Rightarrow> string" where
  "MarshalJSON m =
     (let res0 = [];
          res1 = (if Flags_IsInternal m then res0 @ quoted ''Internal''
                  else res0 @ quoted ''External'');
          res2 = (if Flags_IsDeploy m then res1 @ '', '' @ quoted ''Deploy'' else res1);
          res3 = (if Flags_IsRefund m then res2 @ '', '' @ quoted ''Refund'' else res2);
          res4 = (if Flags_IsBounce m then res3 @ '', '' @ quoted ''Bounce'' else res3);
          res5 = (if Flags_IsResponse m then res4 @ '', '' @ quoted ''Response'' else res4)
      in ''['' @ res5 @ '']'')"

definition setToken :: "string \<Rightarrow> TransactionFlags \<Rightarrow> TransactionFlags" where
  "setToken v m =
     (if v = ''Internal'' then SetBit TransactionFlagInternal m
      else if v = ''Deploy'' then SetBit TransactionFlagDeploy m
      else if v = ''Refund'' then SetBit TransactionFlagRefund m
      else if v = ''Bounce'' then SetBit TransactionFlagBounce m
      else if v = ''Response'' then SetBit TransactionFlagResponse m
      else m)"

definition UnmarshalJSON ::
    "(string \<Rightarrow> error + string list) \<Rightarrow> TransactionFlags \<Rightarrow> string
      \<Rightarrow> TransactionFlags \<times> error option" where
  "UnmarshalJSON json_Unmarshal m data =
     (let m0 = Clear m
      in case json_Unmarshal data of
           Inl err \<Rightarrow> (m0, Some err)
         | Inr s \<Rightarrow> (fold setToken s m0, None))"

text \<open>
  A decoder to run \<^verbatim>\<open>UnmarshalJSON\<close> on: the standard library's decoding of a JSON text
  into a \<^verbatim>\<open>[]string\<close>, on texts of ASCII characters without \<^verbatim>\<open>\u\<close> escapes (the
  texts it is evaluated on below; any other text is reported as \<open>ErrJSON\<close> here). It
  skips white space, takes \<^verbatim>\<open>null\<close> for the empty list, an array element \<^verbatim>\<open>null\<close> for
  the empty string, and fails on any other value, on a control character inside a string
  and on text after the array.
\<close>

definition is_space :: "char \<Rightarrow> bool" where
  "is_space c = (c = CHR '' '' \<or> c = CHR 0x09 \<or> c = CHR 0x0A \<or> c = CHR 0x0D)"

definition skip_space :: "string \<Rightarrow> string" where
  "skip_space cs = dropWhile is_space cs"

definition unescape :: "char \<Rightarrow> char option" where
  "unescape c =
     (if c = CHR 0x22 then Some (CHR 0x22)
      else if c = CHR 0x5C then Some (CHR 0x5C)
      else if c = CHR ''/'' then Some (CHR ''/'')
      else if c = CHR ''b'' then Some (CHR 0x08)
      else if c = CHR ''f'' then Some (CHR 0x0C)
      else if c = CHR ''n'' then Some (CHR 0x0A)
      else if c = CHR ''r'' then Some (CHR 0x0D)
      else if c = CHR ''t'' then Some (CHR 0x09)
      else None)"

fun json_string :: "string \<Rightarrow> (string \<times> string) option" where
  "json_string [] = None"
| "json_string (c # cs) =
     (if c = CHR 0x22 then Some ([], cs)
      else if c = CHR 0x5C then
        (case cs of
           [] \<Rightarrow> None
         | e # cs' \<Rightarrow>
             (case unescape e of
                None \<Rightarrow> None
              | Some d \<Rightarrow> map_option (\<lambda>(s, r). (d # s, r)) (json_string cs')))
      else if (of_char c :: nat) < 0x20 then None
      else map_option (\<lambda>(s, r). (c # s, r)) (json_string cs))"

definition json_value :: "string \<Rightarrow> (string \<times> string) option" where
  "json_value cs =
     (case cs of
        [] \<Rightarrow> None
      | c # cs' \<Rightarrow>
          if c = CHR 0x22 then json_string cs'
          else if take 4 cs = ''null'' then Some ([], drop 4 cs)
          else None)"

lemma json_string_shorter: "json_string cs = Some (s, r) \<Longrightarrow> length r < length cs"
proof (induction cs arbitrary: s r rule: json_string.induct)
  case 1
  then show ?case by simp
next
  case (2 c cs)
  show ?case
  proof (cases "c = CHR 0x22")
    case True
    with 2 show ?thesis by simp
  next
    case notq: False
    show ?thesis
    proof (cases "c = CHR 0x5C")
      case True
      with notq 2 show ?thesis
        by (fastforce split: list.splits option.splits intro: less_SucI)
    next
      case False
      with notq 2 show ?thesis
        by (fastforce split: if_splits intro: less_SucI)
    qed
  qed
qed

lemma json_value_shorter: "json_value cs = Some (s, r) \<Longrightarrow> length r < length cs"
  by (auto simp: json_value_def split: list.splits if_splits dest: json_string_shorter)

lemma skip_space_le: "length (skip_space cs) \<le> length cs"
  by (simp add: skip_space_def length_dropWhile_le)

function json_rest :: "string \<Rightarrow> (string list \<times> string) option" where
  "json_rest cs =
     (case skip_space cs of
        [] \<Rightarrow> None
      | c # cs' \<Rightarrow>
          if c = CHR '']'' then Some ([], cs')
          else if c = CHR '','' then
            (case json_value (skip_space cs') of
               None \<Rightarrow> None
             | Some (v, r) \<Rightarrow> map_option (\<lambda>(vs, r'). (v # vs, r')) (json_rest r))
          else None)"
  by pat_completeness auto
termination
proof (relation "measure length", goal_cases)
  case 1
  show ?case by simp
next
  case (2 cs c cs' x v r)
  have "length r < length (skip_space cs')"
    using 2 by (auto dest: json_value_shorter)
  also have "\<dots> \<le> length cs'" by (rule skip_space_le)
  also have "\<dots> < length (skip_space cs)" using 2 by simp
  also have "\<dots> \<le> length cs" by (rule skip_space_le)
  finally show ?case by simp
qed

definition json_end :: "string list \<Rightarrow> string \<Rightarrow> error + string list" where
  "json_end vs r = (if skip_space r = [] then Inr vs else Inl ErrJSON)"

definition json_Unmarshal_strings :: "string \<Rightarrow> error + string list" where
  "json_Unmarshal_strings data =
     (case skip_space data of
        [] \<Rightarrow> Inl ErrJSON
      | c # cs \<Rightarrow>
          if c = CHR ''['' then
            (case skip_space cs of
               [] \<Rightarrow> Inl ErrJSON
             | d # ds \<Rightarrow>
                 if d = CHR '']'' then json_end [] ds
                 else
                   (case json_value (d # ds) of
                      None \<Rightarrow> Inl ErrJSON
                    | Some (v, r) \<Rightarrow>
                        (case json_rest r of
                           None \<Rightarrow> Inl ErrJSON
                         | Some (vs, r') \<Rightarrow> json_end (v # vs) r')))
          else if take 4 (c # cs) = ''null'' then json_end [] (drop 4 (c # cs))
          else Inl ErrJSON)"

section \<open>Scenarios\<close>

text \<open>
  The literal scenarios of the specification, as values the model is run on: S1 is an
  external execution transaction, S2 an internal deploy payload, S3 a transaction from
  shard 3 to the main shard and S4 a transaction with the bits Internal, Deploy and
  Refund.
\<close>

definition scenarioS1 :: ExternalTransaction where
  "scenarioS1 =
     \<lparr>FeePack.FeeCredit = 0, MaxPriorityFeePerGas = 0, MaxFeePerGas = 0,
      ExternalTransaction.Kind = ExecutionTransactionKind,
      ExternalTransaction.To = 0xBB00000000000000000000000000000000000022,
      ExternalTransaction.ChainId = 1,
      ExternalTransaction.Seqno = 0,
      ExternalTransaction.Data = [],
      AuthData = []\<rparr>"

definition scenarioS2 :: InternalTransactionPayload where
  "scenarioS2 =
     \<lparr>InternalTransactionPayload.Kind = DeployTransactionKind,
      Bounce = False,
      InternalTransactionPayload.FeeCredit = 1000,
      ForwardKind = 0,
      InternalTransactionPayload.To = 0xCC00000000000000000000000000000000000033,
      InternalTransactionPayload.RefundTo = 0,
      InternalTransactionPayload.BounceTo = 0,
      InternalTransactionPayload.Value = 0,
      InternalTransactionPayload.Data = [0xDE, 0xAD],
      InternalTransactionPayload.RequestId = 0,
      InternalTransactionPayload.Token = []\<rparr>"

definition scenarioS3 :: Transaction where
  "scenarioS3 =
     (ExternalTransaction_ToTransaction scenarioS1)
       \<lparr>To := 0x0000000000000000000000000000000000000001,
        From := 0x0003000000000000000000000000000000000001\<rparr>"

definition scenarioS4 :: Transaction where
  "scenarioS4 =
     (ExternalTransaction_ToTransaction scenarioS1)\<lparr>Flags := NewTransactionFlagsFromBits 7\<rparr>"

section \<open>Properties\<close>

subsection \<open>Unfolding and evaluation\<close>

lemmas kind_defs = ExecutionTransactionKind_def DeployTransactionKind_def
  RefundTransactionKind_def ResponseTransactionKind_def

lemmas flag_defs = TransactionFlagInternal_def TransactionFlagDeploy_def
  TransactionFlagRefund_def TransactionFlagBounce_def TransactionFlagResponse_def

lemmas pred_defs = IsInternal_def IsExternal_def IsDeploy_def IsRefund_def IsBounce_def
  IsResponse_def IsRequestOrResponse_def Flags_IsDeploy_def Flags_IsRefund_def
  Flags_IsBounce_def Flags_IsResponse_def Flags_IsInternal_def GetBit_def

lemma TransactionFlagsFromKind_Bits:
  "Bits (TransactionFlagsFromKind internal kind) =
     (if internal then 1 else 0) OR
     (if kind = DeployTransactionKind then 2
      else if kind = RefundTransactionKind then 4
      else if kind = ResponseTransactionKind then 16
      else 0)"
  by (simp add: TransactionFlagsFromKind_def NewTransactionFlags_def NewBitFlags_def
      SetBit_def flag_defs kind_defs Let_def set_bit_eq_or)

lemma sampleLib_simps:
  "ShardId sampleLib a = ucast (drop_bit 144 a)"
  "IsMainShard sampleLib s = (s = 0)"
  "ToShardedHash sampleLib h s = h"
  "KeccakHash sampleLib bs = of_nat (length bs)"
  "rlp_TransactionDigest sampleLib d = Inr (Data d)"
  "rlp_Transaction sampleLib t = Inr (Data t)"
  "rlp_ExternalTransaction sampleLib x = Inr (ExternalTransaction.Data x)"
  "crypto_Sign sampleLib h k = Inr []"
  by (simp_all add: sampleLib_def)

lemma S1_flags: "Bits (Flags (ExternalTransaction_ToTransaction scenarioS1)) = 0"
  by (simp add: ExternalTransaction_ToTransaction_def scenarioS1_def
      TransactionFlagsFromKind_Bits kind_defs)

subsection \<open>Flag validation\<close>

text \<open>
  Claim C1. \<^verbatim>\<open>VerifyFlags\<close> returns an error exactly when (a) the Internal bit is set and
  at least two of the Deploy bit, the Refund bit, the Bounce bit and \<open>RequestId \<noteq> 0\<close>
  hold, or (b) the Internal bit is not set and one of the Refund bit, the Bounce bit and
  \<open>RequestId \<noteq> 0\<close> holds, or (c) the shard of \<open>To\<close> is the main shard and the shard of
  \<open>From\<close> is not. In every other case it returns no error.
\<close>

theorem VerifyFlags_error_iff:
  "(isl (VerifyFlags lib t) \<longleftrightarrow>
      (bit (Bits (Flags t)) 0 \<and>
         2 \<le> length (filter id [bit (Bits (Flags t)) 1, bit (Bits (Flags t)) 2,
                                  bit (Bits (Flags t)) 3, Transaction.RequestId t \<noteq> 0]))
      \<or> (\<not> bit (Bits (Flags t)) 0 \<and>
           (bit (Bits (Flags t)) 2 \<or> bit (Bits (Flags t)) 3 \<or> Transaction.RequestId t \<noteq> 0))
      \<or> (IsMainShard lib (ShardId lib (To t)) \<and> \<not> IsMainShard lib (ShardId lib (From t))))
   \<and> (\<not> isl (VerifyFlags lib t) \<longleftrightarrow> VerifyFlags lib t = Inr ())"
  by (auto simp: VerifyFlags_def pred_defs flag_defs Let_def)

text \<open>
  Scenarios S3 and S4 are rejected and the promoted transaction of S1 is accepted.
\<close>

theorem VerifyFlags_error_iff_witness:
  "VerifyFlags sampleLib scenarioS3 = Inl ErrToMainShard
   \<and> VerifyFlags sampleLib scenarioS4 = Inl ErrInternalRoles
   \<and> VerifyFlags sampleLib (ExternalTransaction_ToTransaction scenarioS1) = Inr ()"
proof -
  have s3: "VerifyFlags sampleLib scenarioS3 = Inl ErrToMainShard"
    by (simp add: VerifyFlags_def scenarioS3_def S1_flags pred_defs flag_defs
        sampleLib_simps ExternalTransaction_ToTransaction_def scenarioS1_def
        TransactionFlagsFromKind_Bits kind_defs)
  have s4: "VerifyFlags sampleLib scenarioS4 = Inl ErrInternalRoles"
    by (simp add: VerifyFlags_def scenarioS4_def NewTransactionFlagsFromBits_def
        pred_defs flag_defs Let_def)
  have "\<not> isl (VerifyFlags sampleLib (ExternalTransaction_ToTransaction scenarioS1))"
    using VerifyFlags_error_iff [of sampleLib "ExternalTransaction_ToTransaction scenarioS1"]
    by (simp add: S1_flags sampleLib_simps)
       (simp add: ExternalTransaction_ToTransaction_def scenarioS1_def)
  then have "VerifyFlags sampleLib (ExternalTransaction_ToTransaction scenarioS1) = Inr ()"
    using VerifyFlags_error_iff [of sampleLib "ExternalTransaction_ToTransaction scenarioS1"]
    by blast
  with s3 s4 show ?thesis by simp
qed

subsection \<open>Gas price\<close>

text \<open>
  Claim C2. For every transaction \<open>t\<close> and base fee \<open>b\<close>: when \<open>MaxFeePerGas t\<close> is zero
  the gas price is \<open>b + MaxPriorityFeePerGas t\<close>; when it is not zero and \<open>b\<close> exceeds it
  the call fails with the fee-below-base error; otherwise the gas price is the smaller of
  \<open>b + MaxPriorityFeePerGas t\<close> and \<open>MaxFeePerGas t\<close>.
\<close>

theorem TransactionGasPrice_cases:
  "TransactionGasPrice t b =
     (if MaxFeePerGas t = 0 then Inr (b + MaxPriorityFeePerGas t)
      else if b > MaxFeePerGas t then Inl ErrMaxFeeBelowBase
      else Inr (min (b + MaxPriorityFeePerGas t) (MaxFeePerGas t)))"
  by (auto simp: TransactionGasPrice_def Value_Add_def Value_Cmp_def Value_IsZero_def
      Let_def min_def)

subsection \<open>Promotion of an internal payload\<close>

text \<open>
  Claim C3, as the code has it. \<^verbatim>\<open>ToTransaction\<close> on a payload sets the Internal bit, the
  Bounce bit exactly when \<open>Bounce p\<close>, and the Deploy, Refund or Response bit exactly
  when the kind is that one; it keeps \<open>To\<close>, \<open>Data\<close>, \<open>Value\<close>, \<open>Token\<close>, \<open>RequestId\<close>,
  \<open>RefundTo\<close>, \<open>BounceTo\<close>, the given sender and sequence number and the fee credit,
  with both other fees zero. It validates nothing: the result fails the role test of
  \<^verbatim>\<open>VerifyFlags\<close> for internal transactions exactly when at least two of
  \<open>Kind = Deploy\<close>, \<open>Kind = Refund\<close>, \<open>Bounce\<close> and \<open>RequestId \<noteq> 0\<close> hold of the
  payload, and it never fails the test for external ones.
\<close>

theorem InternalTransactionPayload_ToTransaction_fields:
  "(let t = InternalTransactionPayload_ToTransaction p from seqno in
      bit (Bits (Flags t)) 0
    \<and> (bit (Bits (Flags t)) 3 \<longleftrightarrow> Bounce p)
    \<and> (bit (Bits (Flags t)) 1 \<longleftrightarrow> InternalTransactionPayload.Kind p = DeployTransactionKind)
    \<and> (bit (Bits (Flags t)) 2 \<longleftrightarrow> InternalTransactionPayload.Kind p = RefundTransactionKind)
    \<and> (bit (Bits (Flags t)) 4 \<longleftrightarrow> InternalTransactionPayload.Kind p = ResponseTransactionKind)
    \<and> To t = InternalTransactionPayload.To p
    \<and> Data t = InternalTransactionPayload.Data p
    \<and> Value t = InternalTransactionPayload.Value p
    \<and> Token t = InternalTransactionPayload.Token p
    \<and> RequestId t = InternalTransactionPayload.RequestId p
    \<and> RefundTo t = InternalTransactionPayload.RefundTo p
    \<and> BounceTo t = InternalTransactionPayload.BounceTo p
    \<and> Seqno t = seqno
    \<and> From t = from
    \<and> FeePack.FeeCredit t = InternalTransactionPayload.FeeCredit p
    \<and> MaxPriorityFeePerGas t = 0
    \<and> MaxFeePerGas t = 0
    \<and> (VerifyFlags lib t = Inl ErrInternalRoles \<longleftrightarrow>
          2 \<le> length (filter id
                 [InternalTransactionPayload.Kind p = DeployTransactionKind,
                  InternalTransactionPayload.Kind p = RefundTransactionKind,
                  Bounce p,
                  InternalTransactionPayload.RequestId p \<noteq> 0]))
    \<and> VerifyFlags lib t \<noteq> Inl ErrExternalRoles)"
  by (auto simp: VerifyFlags_def InternalTransactionPayload_ToTransaction_def
      TransactionFlagsFromKind_Bits SetBit_def pred_defs flag_defs kind_defs Let_def
      NewZeroValue_def bit_simps)

text \<open>
  The claim as stated, that every promoted payload satisfies the role exclusivity of
  \<^verbatim>\<open>VerifyFlags\<close>, fails on the deploy payload of S2 with \<open>Bounce\<close> set: the result has
  the bits Internal, Deploy and Bounce, and \<^verbatim>\<open>VerifyFlags\<close> rejects it.
\<close>

theorem InternalTransactionPayload_ToTransaction_counterexample:
  "VerifyFlags sampleLib
     (InternalTransactionPayload_ToTransaction (scenarioS2\<lparr>Bounce := True\<rparr>)
        0xAA00000000000000000000000000000000000011 7) = Inl ErrInternalRoles
   \<and> IsInternal (InternalTransactionPayload_ToTransaction (scenarioS2\<lparr>Bounce := True\<rparr>)
        0xAA00000000000000000000000000000000000011 7)
   \<and> IsDeploy (InternalTransactionPayload_ToTransaction (scenarioS2\<lparr>Bounce := True\<rparr>)
        0xAA00000000000000000000000000000000000011 7)
   \<and> IsBounce (InternalTransactionPayload_ToTransaction (scenarioS2\<lparr>Bounce := True\<rparr>)
        0xAA00000000000000000000000000000000000011 7)"
  by (simp add: VerifyFlags_def InternalTransactionPayload_ToTransaction_def scenarioS2_def
      TransactionFlagsFromKind_Bits SetBit_def pred_defs flag_defs kind_defs Let_def)

subsection \<open>Hash of an external transaction\<close>

text \<open>
  Claim C5. For a transaction \<open>t\<close> without the Internal bit, \<^verbatim>\<open>toExternal\<close> returns an
  external transaction \<open>x\<close>, \<open>Hash\<close> of \<open>t\<close> is \<open>Hash\<close> of \<open>x\<close>, and that is
  \<^verbatim>\<open>ToShardedHash\<close> of the Keccak hash of the canonical bytes of \<open>x\<close> with the shard of
  \<open>To\<close> (a panic when the encoder fails).
\<close>

theorem Transaction_Hash_external:
  assumes "\<not> bit (Bits (Flags t)) 0"
  shows "\<exists>x. toExternal t = Inr x
           \<and> Transaction_Hash lib t = ExternalTransaction_Hash lib x
           \<and> ExternalTransaction_Hash lib x =
               (case rlp_ExternalTransaction lib x of
                  Inl e \<Rightarrow> Inl PanicMarshal
                | Inr buf \<Rightarrow>
                    Inr (ToShardedHash lib (KeccakHash lib buf) (ShardId lib (To t))))"
  using assms
  by (simp add: toExternal_def Transaction_Hash_def ExternalTransaction_Hash_def
      MustKeccak_def Keccak_def ExternalTransaction_MarshalNil_def pred_defs flag_defs
      Let_def split: sum.splits)

theorem Transaction_Hash_external_witness:
  "\<not> bit (Bits (Flags (ExternalTransaction_ToTransaction scenarioS1))) 0
   \<and> (\<exists>x. toExternal (ExternalTransaction_ToTransaction scenarioS1) = Inr x
          \<and> Transaction_Hash sampleLib (ExternalTransaction_ToTransaction scenarioS1) =
              ExternalTransaction_Hash sampleLib x)"
proof -
  have e: "\<not> bit (Bits (Flags (ExternalTransaction_ToTransaction scenarioS1))) 0"
    by (simp add: S1_flags)
  from Transaction_Hash_external [OF e, of sampleLib] e show ?thesis
    by blast
qed

subsection \<open>Promotion of an external transaction\<close>

text \<open>
  Claim C6. \<^verbatim>\<open>ToTransaction\<close> on an external transaction \<open>x\<close> gives the flags
  \<open>TransactionFlagsFromKind False (Kind x)\<close>, which is the byte 0 for the execution
  kind; \<open>From\<close> is \<open>To x\<close>, \<open>Signature\<close> is \<open>AuthData x\<close>, and \<open>To\<close>, \<open>ChainId\<close>,
  \<open>Seqno\<close>, \<open>Data\<close> and the fee pack are those of \<open>x\<close>.
\<close>

theorem ExternalTransaction_ToTransaction_fields:
  "Flags (ExternalTransaction_ToTransaction x) =
      TransactionFlagsFromKind False (ExternalTransaction.Kind x)
   \<and> Bits (TransactionFlagsFromKind False ExecutionTransactionKind) = 0x00
   \<and> From (ExternalTransaction_ToTransaction x) = ExternalTransaction.To x
   \<and> Signature (ExternalTransaction_ToTransaction x) = AuthData x
   \<and> To (ExternalTransaction_ToTransaction x) = ExternalTransaction.To x
   \<and> ChainId (ExternalTransaction_ToTransaction x) = ExternalTransaction.ChainId x
   \<and> Seqno (ExternalTransaction_ToTransaction x) = ExternalTransaction.Seqno x
   \<and> Data (ExternalTransaction_ToTransaction x) = ExternalTransaction.Data x
   \<and> FeePack.truncate (ExternalTransaction_ToTransaction x) = FeePack.truncate x"
  by (simp add: ExternalTransaction_ToTransaction_def TransactionFlagsFromKind_Bits
      kind_defs FeePack.truncate_def)

subsection \<open>Conversion to the external form\<close>

text \<open>
  Claim C7. On a transaction without the Internal bit, \<^verbatim>\<open>toExternal\<close> returns an external
  transaction whose kind is Deploy when the Deploy bit is set, else Refund when the Refund
  bit is set, else Execution, so never Response, and whose \<open>AuthData\<close> is the
  \<open>Signature\<close>. On a transaction with the Internal bit, \<^verbatim>\<open>toExternal\<close> panics, and so
  does \<^verbatim>\<open>Sign\<close>.
\<close>

theorem toExternal_kind_and_panic:
  "(\<not> bit (Bits (Flags t)) 0 \<longrightarrow>
      (\<exists>x. toExternal t = Inr x
         \<and> ExternalTransaction.Kind x =
             (if bit (Bits (Flags t)) 1 then DeployTransactionKind
              else if bit (Bits (Flags t)) 2 then RefundTransactionKind
              else ExecutionTransactionKind)
         \<and> ExternalTransaction.Kind x \<noteq> ResponseTransactionKind
         \<and> AuthData x = Signature t))
   \<and> (bit (Bits (Flags t)) 0 \<longrightarrow>
        toExternal t = Inl PanicInternalToExternal
        \<and> Transaction_Sign lib t key = Inl PanicInternalToExternal
        \<and> is_panic PanicInternalToExternal)"
  by (simp add: toExternal_def Transaction_Sign_def pred_defs flag_defs kind_defs
      is_panic_def Let_def)

theorem toExternal_kind_and_panic_witness:
  "(\<exists>x. toExternal (ExternalTransaction_ToTransaction scenarioS1) = Inr x
        \<and> ExternalTransaction.Kind x = ExecutionTransactionKind
        \<and> AuthData x = [])
   \<and> toExternal scenarioS4 = Inl PanicInternalToExternal
   \<and> Transaction_Sign sampleLib scenarioS4 (5 :: nat) = Inl PanicInternalToExternal"
proof -
  have e: "\<not> bit (Bits (Flags (ExternalTransaction_ToTransaction scenarioS1))) 0"
    by (simp add: S1_flags)
  have i: "bit (Bits (Flags scenarioS4)) 0"
    by (simp add: scenarioS4_def NewTransactionFlagsFromBits_def)
  have sg: "Signature (ExternalTransaction_ToTransaction scenarioS1) = []"
    by (simp add: ExternalTransaction_ToTransaction_def scenarioS1_def)
  from toExternal_kind_and_panic
         [of "ExternalTransaction_ToTransaction scenarioS1" sampleLib 5] e
  have "\<exists>x. toExternal (ExternalTransaction_ToTransaction scenarioS1) = Inr x
        \<and> ExternalTransaction.Kind x = ExecutionTransactionKind
        \<and> AuthData x = []"
    by (auto simp: S1_flags sg)
  moreover from toExternal_kind_and_panic [of scenarioS4 sampleLib 5] i
  have "toExternal scenarioS4 = Inl PanicInternalToExternal
        \<and> Transaction_Sign sampleLib scenarioS4 (5 :: nat) = Inl PanicInternalToExternal"
    by simp
  ultimately show ?thesis by simp
qed

subsection \<open>Signing hash of a promoted external transaction\<close>

text \<open>
  Claim C10. For every external transaction \<open>x\<close>, the signing hash of
  \<open>ExternalTransaction_ToTransaction x\<close> is the signing hash of \<open>x\<close>.
\<close>

theorem ExternalTransaction_ToTransaction_SigningHash:
  "Transaction_SigningHash lib (ExternalTransaction_ToTransaction x) =
     ExternalTransaction_SigningHash lib x"
  by (simp add: Transaction_SigningHash_def ExternalTransaction_SigningHash_def
      ExternalTransaction_ToTransaction_def TransactionDigest.truncate_def Let_def)

end
